theory Spec2Isabelle
  imports Complex_Main "HOL-Library.Signed_Division" "HOL-Library.Word"
begin

section \<open>Scores: the phase-split score triple of scoring.h\<close>

text \<open>
  \<^verbatim>\<open>score_t\<close> is declared outside scoring.h; in the non-tuning build it is a 32-bit
  signed integer (the cache entries store the same quantities in \<^verbatim>\<open>int32_t\<close> fields). A
  score is an \<open>int\<close> in the 32-bit range; where the code multiplies or adds scores the
  32-bit wrap-around is written out with \<open>int32\<close>. C++ integer division truncates
  towards zero, which is \<open>sdiv\<close>.
\<close>

type_synonym score_t = int

definition int32 :: "int \<Rightarrow> int" where
  "int32 x = (x + 2 ^ 31) mod 2 ^ 32 - 2 ^ 31"

text \<open>\<^verbatim>\<open>struct Scores { score_t mid, end, any; ... }\<close>\<close>

record Scores =
  mid :: score_t
  end' :: score_t
  any :: score_t

text \<open>The default constructor \<^verbatim>\<open>Scores() : mid(0), end(0), any(0)\<close>.\<close>

definition Scores0 :: Scores where
  "Scores0 = \<lparr>mid = 0, end' = 0, any = 0\<rparr>"

text \<open>
  \<^verbatim>\<open>Params::MATERIAL_SCALE[materialLevel]\<close>: the table lives in params.h/params.cpp,
  which are not modelled, so it is a parameter \<open>tbl\<close>. C++ does not check the index;
  a read outside the table has no defined value and is \<open>None\<close> here.
\<close>

definition MATERIAL_SCALE_at :: "int list \<Rightarrow> int \<Rightarrow> int option" where
  "MATERIAL_SCALE_at tbl materialLevel =
     (if 0 \<le> materialLevel \<and> nat materialLevel < length tbl
      then Some (tbl ! nat materialLevel) else None)"

text \<open>
  \<^verbatim>\<open>
  score_t blend(int materialLevel) {
    return any + mid*Params::MATERIAL_SCALE[materialLevel]/128 +
      end*(128-Params::MATERIAL_SCALE[materialLevel])/128;
  }
  \<close>
\<close>

definition blend :: "int list \<Rightarrow> Scores \<Rightarrow> int \<Rightarrow> score_t option" where
  "blend tbl s materialLevel =
     (case MATERIAL_SCALE_at tbl materialLevel of
        None \<Rightarrow> None
      | Some scale \<Rightarrow>
          Some (int32 (int32 (any s + int32 (mid s * scale) sdiv 128)
                       + int32 (end' s * int32 (128 - scale)) sdiv 128)))"

text \<open>
  Modelled from the spec: the contents of \<^verbatim>\<open>Params::MATERIAL_SCALE\<close> are missing; the
  spec gives every entry as a phase indicator in \<open>[0,128]\<close>.
\<close>

definition scale_table_ok :: "int list \<Rightarrow> bool" where
  "scale_table_ok tbl = list_all (\<lambda>x. 0 \<le> x \<and> x \<le> 128) tbl"

text \<open>Score triples whose components are below \<open>2^24\<close> in magnitude.\<close>

definition small :: "Scores \<Rightarrow> bool" where
  "small s = (\<bar>mid s\<bar> < 2 ^ 24 \<and> \<bar>end' s\<bar> < 2 ^ 24 \<and> \<bar>any s\<bar> < 2 ^ 24)"

text \<open>
  \<^verbatim>\<open>
  int operator == (const Scores &s) const {
    return s.mid == mid && s.end == end && s.any == any;
  }
  int operator != (const Scores &s) const {
    return s.mid != mid || s.end != end || s.any != any;
  }
  \<close>
  Both return \<^verbatim>\<open>int\<close>: the truth value as 1 or 0.
\<close>

definition op_eq :: "Scores \<Rightarrow> Scores \<Rightarrow> int" where
  "op_eq this s = (if mid s = mid this \<and> end' s = end' this \<and> any s = any this then 1 else 0)"

definition op_ne :: "Scores \<Rightarrow> Scores \<Rightarrow> int" where
  "op_ne this s = (if mid s \<noteq> mid this \<or> end' s \<noteq> end' this \<or> any s \<noteq> any this then 1 else 0)"

section \<open>Mate scores\<close>

text \<open>
  \<^verbatim>\<open>Constants::INVALID_SCORE\<close> and \<^verbatim>\<open>Constants::TABLEBASE_WIN\<close> are declared outside
  scoring.h; they are parameters of the model.
\<close>

record Constants =
  INVALID_SCORE :: score_t
  TABLEBASE_WIN :: score_t

text \<open>
  \<^verbatim>\<open>
  static bool mateScore(score_t score) {
    return score != Constants::INVALID_SCORE &&
      (score>=Constants::TABLEBASE_WIN || score<=-Constants::TABLEBASE_WIN);
  }
  \<close>
\<close>

definition mateScore :: "Constants \<Rightarrow> score_t \<Rightarrow> bool" where
  "mateScore c score =
     (score \<noteq> INVALID_SCORE c \<and>
      (score \<ge> TABLEBASE_WIN c \<or> score \<le> - TABLEBASE_WIN c))"

section \<open>Cache sizes\<close>

text \<open>
  \<^verbatim>\<open>
  #ifdef TUNE
      static const int PAWN_HASH_SIZE = 8096;
  #else
      static const int PAWN_HASH_SIZE = 16384;
  #endif
      static const int KING_PAWN_HASH_SIZE = 8132;
  \<close>
  The build flag \<^verbatim>\<open>TUNE\<close> is the argument of \<open>PAWN_HASH_SIZE\<close>.
\<close>

definition PAWN_HASH_SIZE :: "bool \<Rightarrow> nat" where
  "PAWN_HASH_SIZE tune = (if tune then 8096 else 16384)"

definition KING_PAWN_HASH_SIZE :: nat where
  "KING_PAWN_HASH_SIZE = 8132"

text \<open>Executable tests for "is a power of two" and "is prime".\<close>

fun is_pow2 :: "nat \<Rightarrow> bool" where
  "is_pow2 n =
     (if n = 0 then False
      else if n = 1 then True
      else if odd n then False
      else is_pow2 (n div 2))"

declare is_pow2.simps [simp del]

definition is_prime :: "nat \<Rightarrow> bool" where
  "is_prime n = (2 \<le> n \<and> list_all (\<lambda>d. n mod d \<noteq> 0) [2..<n])"

section \<open>The tuning optimizer wrapper of rockstar.cpp\<close>

text \<open>
  A \<^verbatim>\<open>double\<close> is a value of a type \<open>'a\<close>, and the floating-point operations the
  wrapper uses are parameters: the value of a literal, addition, subtraction,
  multiplication, \<^verbatim>\<open>pow\<close> and the comparison \<open><\<close> (\<open>a > b\<close> is \<open>b < a\<close>). Nothing is
  assumed of them, so rounding, infinities and NaN behave as the machine has them.
\<close>

record 'a arith =
  flit :: "real \<Rightarrow> 'a"
  fadd :: "'a \<Rightarrow> 'a \<Rightarrow> 'a"
  fsub :: "'a \<Rightarrow> 'a \<Rightarrow> 'a"
  fmul :: "'a \<Rightarrow> 'a \<Rightarrow> 'a"
  fpow :: "'a \<Rightarrow> 'a \<Rightarrow> 'a"
  fless :: "'a \<Rightarrow> 'a \<Rightarrow> bool"

text \<open>
  An \<^verbatim>\<open>Eigen::VectorXd\<close> is a list of doubles. Eigen does not check an index in a release
  build and asserts in a debug build; here a read outside the vector is an error that ends
  the run.
\<close>

datatype error = IndexOutOfRange

definition coeff :: "'a list \<Rightarrow> nat \<Rightarrow> error + 'a" where
  "coeff v i = (if i < length v then Inr (v ! i) else Inl IndexOutOfRange)"

text \<open>The \<^verbatim>\<open>options\<close> member and the fields the wrapper inherits from \<^verbatim>\<open>OptBase\<close>.\<close>

record 'a Options =
  initial_exp :: int
  initialSd :: 'a
  constraint_penalty :: 'a

record 'a Rockstar =
  dim :: int
  initial_theta :: "'a list"
  eval_limit :: int
  options :: "'a Options"
  upper :: "'a list"
  lower :: "'a list"

text \<open>
  \<^verbatim>\<open>
  Rockstar::Rockstar(int d, const Eigen::VectorXd &x0, int eval_limit) : OptBase(d)
  {
     setInitialPoints(x0);
     setEvaluationLimit(eval_limit);
     options.initial_exp = 2;
     options.initialSd = 0.05;
     options.constraint_penalty = 100;
     upper.setOnes(dim);
     lower.setZero(dim);
  }
  \<close>
  \<^verbatim>\<open>OptBase(d)\<close>, \<^verbatim>\<open>setInitialPoints\<close> and \<^verbatim>\<open>setEvaluationLimit\<close> are declared outside
  rockstar.cpp; they are taken to store their argument in \<^verbatim>\<open>dim\<close>,
  \<^verbatim>\<open>initial_theta\<close> and \<^verbatim>\<open>eval_limit\<close>, the members \<^verbatim>\<open>optimize\<close> reads.
\<close>

definition Rockstar_new :: "'a arith \<Rightarrow> int \<Rightarrow> 'a list \<Rightarrow> int \<Rightarrow> 'a Rockstar" where
  "Rockstar_new a d x0 limit =
     \<lparr>dim = d, initial_theta = x0, eval_limit = limit,
      options = \<lparr>initial_exp = 2, initialSd = flit a (5 / 100), constraint_penalty = flit a 100\<rparr>,
      upper = replicate (nat d) (flit a 1),
      lower = replicate (nat d) (flit a 0)\<rparr>"

text \<open>
  \<^verbatim>\<open>
  void Rockstar::setBoxConstraints(const Eigen::VectorXd &lower, const Eigen::VectorXd &upper)
  {
     this->lower = lower;
     this->upper = upper;
  }
  \<close>
\<close>

definition setBoxConstraints :: "'a list \<Rightarrow> 'a list \<Rightarrow> 'a Rockstar \<Rightarrow> 'a Rockstar" where
  "setBoxConstraints lo up r = r\<lparr>lower := lo, upper := up\<rparr>"

text \<open>
  The Rock* optimizer (\<^verbatim>\<open>rockstar::Rockstar\<close>, third-party) is a black box with a state
  \<open>'o\<close>: its constructor, \<^verbatim>\<open>getNextTheta2Evaluate\<close>, which overwrites the vector it is
  handed, and \<^verbatim>\<open>setTheCostFromTheLastTheta\<close>.
\<close>

record ('a, 'o) optimizer_api =
  create :: "'a list \<Rightarrow> 'a list \<Rightarrow> int \<Rightarrow> 'o"
  getNextTheta2Evaluate :: "'o \<Rightarrow> 'a list \<Rightarrow> 'a list \<times> 'o"
  setTheCostFromTheLastTheta :: "'o \<Rightarrow> 'a \<Rightarrow> 'o"

text \<open>
  The two function pointers handed to \<^verbatim>\<open>optimize\<close>. They are C functions and may keep
  state of their own (the tuner's log, its best point so far): \<open>'w\<close>.
\<close>

record ('a, 'w) hooks =
  func :: "'a list \<Rightarrow> 'w \<Rightarrow> 'a \<times> 'w"
  update :: "'a \<Rightarrow> 'a list \<Rightarrow> 'w \<Rightarrow> 'w"

text \<open>The local \<^verbatim>\<open>theta\<close>, the optimizer object and the state behind the two hooks.\<close>

record ('a, 'o, 'w) run_state =
  theta :: "'a list"
  optimizer :: 'o
  world :: 'w

text \<open>
  Modelled from the spec: \<^verbatim>\<open>OptBase::eval(theta, func, update)\<close> is missing. The spec
  gives it as the evaluation entry point that takes a parameter vector and returns the
  scalar objective, with the callback invoked after the evaluation with the objective
  and the parameter vector.
\<close>

definition OptBase_eval :: "('a, 'w) hooks \<Rightarrow> 'a list \<Rightarrow> 'w \<Rightarrow> 'a \<times> 'w" where
  "OptBase_eval hk th w =
     (let (obj, w1) = func hk th w;
          w2 = update hk obj th w1
      in (obj, w2))"

text \<open>
  The inner loop of \<^verbatim>\<open>optimize\<close>:
  \<^verbatim>\<open>
  double penalty = 0.0;
  for (int i = 0; i < dim; i++) {
     if (theta(i) < lower(i)) {
        penalty += pow(lower(i)-theta(i),2.0)*options.constraint_penalty;
     } else if (theta(i) > upper(i)) {
        penalty += pow(theta(i)-upper(i),2.0)*options.constraint_penalty;
     }
  }
  \<close>
  \<open>upper(i)\<close> is read only when \<open>theta(i) < lower(i)\<close> is false.
\<close>

definition penalty_step :: "'a arith \<Rightarrow> 'a Rockstar \<Rightarrow> 'a list \<Rightarrow> nat \<Rightarrow> 'a \<Rightarrow> error + 'a" where
  "penalty_step a r th i penalty =
     (case coeff th i of Inl e \<Rightarrow> Inl e | Inr t \<Rightarrow>
      case coeff (lower r) i of Inl e \<Rightarrow> Inl e | Inr lo \<Rightarrow>
        if fless a t lo
        then Inr (fadd a penalty
                    (fmul a (fpow a (fsub a lo t) (flit a 2)) (constraint_penalty (options r))))
        else (case coeff (upper r) i of Inl e \<Rightarrow> Inl e | Inr up \<Rightarrow>
          if fless a up t
          then Inr (fadd a penalty
                      (fmul a (fpow a (fsub a t up) (flit a 2)) (constraint_penalty (options r))))
          else Inr penalty))"

function penalty_loop :: "'a arith \<Rightarrow> 'a Rockstar \<Rightarrow> 'a list \<Rightarrow> int \<Rightarrow> 'a \<Rightarrow> error + 'a" where
  "penalty_loop a r th i penalty =
     (if i < dim r then
        (case penalty_step a r th (nat i) penalty of
           Inl e \<Rightarrow> Inl e
         | Inr penalty' \<Rightarrow> penalty_loop a r th (i + 1) penalty')
      else Inr penalty)"
  by pat_completeness auto
termination
  by (relation "measure (\<lambda>(a, r, th, i, penalty). nat (dim r - i))") auto

declare penalty_loop.simps [simp del]

text \<open>
  One round of the outer loop:
  \<^verbatim>\<open>
  optimizer.getNextTheta2Evaluate(theta);
  double cost = eval(theta,func,update);
  // apply penalty for constraint violations
  double penalty = 0.0;
  for (...) {...}
  cost += penalty;
  optimizer.setTheCostFromTheLastTheta(cost);
  \<close>
  The \<^verbatim>\<open>TRACE\<close> output to \<^verbatim>\<open>cout\<close> is left out.
\<close>

definition optimize_step ::
  "'a arith \<Rightarrow> ('a, 'o) optimizer_api \<Rightarrow> ('a, 'w) hooks \<Rightarrow> 'a Rockstar
     \<Rightarrow> ('a, 'o, 'w) run_state \<Rightarrow> error + ('a, 'o, 'w) run_state" where
  "optimize_step a api hk r st =
     (let (th, opt1) = getNextTheta2Evaluate api (optimizer st) (theta st);
          (cost, w1) = OptBase_eval hk th (world st)
      in case penalty_loop a r th 0 (flit a 0) of
           Inl e \<Rightarrow> Inl e
         | Inr penalty \<Rightarrow>
             (let cost' = fadd a cost penalty
              in Inr \<lparr>theta = th,
                      optimizer = setTheCostFromTheLastTheta api opt1 cost',
                      world = w1\<rparr>))"

text \<open>\<^verbatim>\<open>for(int i=0; i< eval_limit; i++){ ... }\<close>\<close>

function optimize_loop ::
  "'a arith \<Rightarrow> ('a, 'o) optimizer_api \<Rightarrow> ('a, 'w) hooks \<Rightarrow> 'a Rockstar \<Rightarrow> int
     \<Rightarrow> ('a, 'o, 'w) run_state \<Rightarrow> error + ('a, 'o, 'w) run_state" where
  "optimize_loop a api hk r i st =
     (if i < eval_limit r then
        (case optimize_step a api hk r st of
           Inl e \<Rightarrow> Inl e
         | Inr st' \<Rightarrow> optimize_loop a api hk r (i + 1) st')
      else Inr st)"
  by pat_completeness auto
termination
  by (relation "measure (\<lambda>(a, api, hk, r, i, st). nat (eval_limit r - i))") auto

declare optimize_loop.simps [simp del]

text \<open>
  \<^verbatim>\<open>
  void Rockstar::optimize(double (*func)(const Eigen::VectorXd &theta),
                          void (*update)(double obj, const Eigen::VectorXd &theta))
  {
     Eigen::VectorXd Initial_StandardDeviation = Eigen::VectorXd::Ones(dim,1) * options.initialSd;
     rockstar::Rockstar optimizer(initial_theta, Initial_StandardDeviation, options.initial_exp);
     Eigen::VectorXd theta(dim);
     theta = initial_theta;
     for (...) {...}
  }
  \<close>
\<close>

definition optimize ::
  "'a arith \<Rightarrow> ('a, 'o) optimizer_api \<Rightarrow> ('a, 'w) hooks \<Rightarrow> 'a Rockstar \<Rightarrow> 'w
     \<Rightarrow> error + ('a, 'o, 'w) run_state" where
  "optimize a api hk r w =
     (let Initial_StandardDeviation =
            map (\<lambda>x. fmul a x (initialSd (options r))) (replicate (nat (dim r)) (flit a 1));
          optimizer0 = create api (initial_theta r) Initial_StandardDeviation (initial_exp (options r))
      in optimize_loop a api hk r 0
           \<lparr>theta = initial_theta r, optimizer = optimizer0, world = w\<rparr>)"

text \<open>
  The claim's words, to compare the loops with. The penalty of one component:
  \<open>constraint_penalty\<close> times the squared distance to the box when the component is
  outside \<open>[lower, upper]\<close>, nothing when it is inside. The penalty of a vector adds the
  components' penalties to zero, in order.
\<close>

definition component_penalty :: "'a arith \<Rightarrow> 'a Rockstar \<Rightarrow> 'a list \<Rightarrow> nat \<Rightarrow> 'a option" where
  "component_penalty a r th i =
     (if fless a (th ! i) (lower r ! i)
      then Some (fmul a (fpow a (fsub a (lower r ! i) (th ! i)) (flit a 2))
                   (constraint_penalty (options r)))
      else if fless a (upper r ! i) (th ! i)
      then Some (fmul a (fpow a (fsub a (th ! i) (upper r ! i)) (flit a 2))
                   (constraint_penalty (options r)))
      else None)"

definition add_penalty :: "'a arith \<Rightarrow> 'a \<Rightarrow> 'a option \<Rightarrow> 'a" where
  "add_penalty a p q = (case q of None \<Rightarrow> p | Some x \<Rightarrow> fadd a p x)"

definition box_penalty :: "'a arith \<Rightarrow> 'a Rockstar \<Rightarrow> 'a list \<Rightarrow> 'a" where
  "box_penalty a r th =
     foldl (\<lambda>p i. add_penalty a p (component_penalty a r th i)) (flit a 0) [0..<nat (dim r)]"

text \<open>
  One round in the claim's words: the optimizer proposes a vector, the objective is
  evaluated on it once, the callback is invoked with the objective and the vector, and the
  optimizer is told the objective plus the penalty of the vector.
\<close>

definition claimed_round ::
  "'a arith \<Rightarrow> ('a, 'o) optimizer_api \<Rightarrow> ('a, 'w) hooks \<Rightarrow> 'a Rockstar
     \<Rightarrow> ('a, 'o, 'w) run_state \<Rightarrow> ('a, 'o, 'w) run_state" where
  "claimed_round a api hk r st =
     (let proposal = getNextTheta2Evaluate api (optimizer st) (theta st);
          th = fst proposal;
          evaluation = func hk th (world st);
          obj = fst evaluation
      in \<lparr>theta = th,
          optimizer = setTheCostFromTheLastTheta api (snd proposal)
                        (fadd a obj (box_penalty a r th)),
          world = update hk obj th (snd evaluation)\<rparr>)"

text \<open>
  An arithmetic, an optimizer and a pair of hooks to run the wrapper on: exact real
  arithmetic, an optimizer that records the costs it is told, and hooks that record their
  calls with their arguments.
\<close>

definition exact_arith :: "real arith" where
  "exact_arith =
     \<lparr>flit = (\<lambda>x. x), fadd = (\<lambda>x y. x + y), fsub = (\<lambda>x y. x - y), fmul = (\<lambda>x y. x * y),
      fpow = (\<lambda>x y. x ^ nat \<lfloor>y\<rfloor>), fless = (\<lambda>x y. x < y)\<rparr>"

datatype 'a event = Evaluated "'a list" 'a | Updated 'a "'a list"

definition recording_optimizer :: "(real, real \<times> real list) optimizer_api" where
  "recording_optimizer =
     \<lparr>create = (\<lambda>x0 sd e. (3 / 2, [])),
      getNextTheta2Evaluate = (\<lambda>(k, costs) v. ([k, 1 / 2], (k, costs))),
      setTheCostFromTheLastTheta = (\<lambda>(k, costs) c. (k + 1, costs @ [c]))\<rparr>"

definition recording_hooks :: "(real, real event list) hooks" where
  "recording_hooks =
     \<lparr>func = (\<lambda>th w. (sum_list th, w @ [Evaluated th (sum_list th)])),
      update = (\<lambda>obj th w. w @ [Updated obj th])\<rparr>"

section \<open>The evaluator's caches\<close>

text \<open>
  \<^verbatim>\<open>ColorType\<close>, \<^verbatim>\<open>Square\<close>, \<^verbatim>\<open>Bitboard\<close>, \<^verbatim>\<open>hash_t\<close> and \<^verbatim>\<open>byte\<close> are declared outside
  scoring.h. A bitboard and a hash code are 64-bit words, a byte is 8 bits.
\<close>

datatype ColorType = White | Black

fun OppositeColor :: "ColorType \<Rightarrow> ColorType" where
  "OppositeColor White = Black"
| "OppositeColor Black = White"

type_synonym Square = int
type_synonym Bitboard = "64 word"
type_synonym hash_t = "64 word"
type_synonym byte = "8 word"

text \<open>
  The cache entries of scoring.h, in the non-tuning build:
  \<^verbatim>\<open>struct PawnDetail { uint16_t flags; byte space_weight; Square sq; };\<close>,
  \<^verbatim>\<open>struct PawnHashEntry { hash_t hc; struct PawnData {...} wPawnData, bPawnData; }\<close> and
  \<^verbatim>\<open>struct KingPawnHashEntry { hash_t hc; int32_t cover, storm, pawn_attacks;
  int32_t king_endgame_position; }\<close>.
\<close>

record PawnDetail =
  flags :: "16 word"
  space_weight :: byte
  sq :: Square

record PawnData =
  passers :: Bitboard
  opponent_pawn_attacks :: Bitboard
  weak_pawns :: Bitboard
  weakopen :: byte
  pawn_file_mask :: byte
  passer_file_mask :: byte
  pad :: byte
  endgame_score :: int
  midgame_score :: int
  w_square_pawns :: int
  b_square_pawns :: int
  outside :: int
  details :: "PawnDetail list"

record PawnHashEntry =
  hc :: hash_t
  wPawnData :: PawnData
  bPawnData :: PawnData

text \<open>
  \<^verbatim>\<open>
  const PawnData &pawnData(ColorType side) const {
    return (side==White) ? wPawnData : bPawnData;
  }
  \<close>
\<close>

definition pawnData :: "PawnHashEntry \<Rightarrow> ColorType \<Rightarrow> PawnData" where
  "pawnData e side = (if side = White then wPawnData e else bPawnData e)"

record KingPawnHashEntry =
  hc :: hash_t
  cover :: int
  storm :: int
  pawn_attacks :: int
  king_endgame_position :: int

text \<open>
  The tables an evaluator owns:
  \<^verbatim>\<open>PawnHashEntry pawnHashTable[PAWN_HASH_SIZE]\<close> and
  \<^verbatim>\<open>KingPawnHashEntry kingPawnHashTable[2][KING_PAWN_HASH_SIZE]\<close>. An array is a function
  of the index; only indices below the size are ever used.
\<close>

record Scoring =
  pawnHashTable :: "nat \<Rightarrow> PawnHashEntry"
  kingPawnHashTable :: "ColorType \<Rightarrow> nat \<Rightarrow> KingPawnHashEntry"

text \<open>
  What scoring.h only declares, and the board it reads, are parameters of the model: the
  board type \<open>'b\<close> with its two fingerprints, its side to move and its material level,
  the computations \<^verbatim>\<open>calcPawnEntry\<close> and \<^verbatim>\<open>calcCover\<close>/\<^verbatim>\<open>calcStorm\<close>/
  \<^verbatim>\<open>calcKingEndgamePosition\<close> that fill an entry, the material, positional and
  special-case endgame scoring of one side (\<^verbatim>\<open>sideScores\<close>: the side, the board, the
  pawn entry, the side's own king entry, the opponent's), the table
  \<^verbatim>\<open>Params::MATERIAL_SCALE\<close> and the final cap to the mate-score range.
\<close>

record 'b evaluator =
  pawnHashCode :: "'b \<Rightarrow> hash_t"
  kingPawnHashCode :: "ColorType \<Rightarrow> 'b \<Rightarrow> hash_t"
  calcPawnEntry :: "'b \<Rightarrow> PawnData \<times> PawnData"
  calcKingPawn :: "ColorType \<Rightarrow> 'b \<Rightarrow> PawnData \<Rightarrow> PawnData \<Rightarrow> KingPawnHashEntry"
  sideToMove :: "'b \<Rightarrow> ColorType"
  materialLevel :: "'b \<Rightarrow> int"
  MATERIAL_SCALE :: "int list"
  sideScores :: "ColorType \<Rightarrow> 'b \<Rightarrow> PawnHashEntry \<Rightarrow> KingPawnHashEntry \<Rightarrow> KingPawnHashEntry \<Rightarrow> Scores"
  cap :: "score_t \<Rightarrow> score_t"

text \<open>The entry a fresh computation produces for a board, under the board's fingerprint.\<close>

definition freshPawnEntry :: "'b evaluator \<Rightarrow> 'b \<Rightarrow> PawnHashEntry" where
  "freshPawnEntry ev board =
     \<lparr>PawnHashEntry.hc = pawnHashCode ev board,
      wPawnData = fst (calcPawnEntry ev board),
      bPawnData = snd (calcPawnEntry ev board)\<rparr>"

definition freshKPEntry ::
  "'b evaluator \<Rightarrow> ColorType \<Rightarrow> 'b \<Rightarrow> PawnData \<Rightarrow> PawnData \<Rightarrow> KingPawnHashEntry" where
  "freshKPEntry ev side board ourPawnData oppPawnData =
     (calcKingPawn ev side board ourPawnData oppPawnData)
       \<lparr>KingPawnHashEntry.hc := kingPawnHashCode ev side board\<rparr>"







text \<open>
  The spec's invariant on a cache, for the slots a board addresses: a slot whose stored
  fingerprint equals the board's holds exactly what a fresh computation produces.
\<close>

definition pawn_slot_fresh :: "'b evaluator \<Rightarrow> bool \<Rightarrow> Scoring \<Rightarrow> 'b \<Rightarrow> bool" where
  "pawn_slot_fresh ev tune sc board =
     (let e = pawnHashTable sc (unat (pawnHashCode ev board) mod PAWN_HASH_SIZE tune)
      in if PawnHashEntry.hc e = pawnHashCode ev board then e = freshPawnEntry ev board else True)"

definition king_slot_fresh :: "'b evaluator \<Rightarrow> ColorType \<Rightarrow> Scoring \<Rightarrow> 'b \<Rightarrow> bool" where
  "king_slot_fresh ev side sc board =
     (let e = kingPawnHashTable sc side (unat (kingPawnHashCode ev side board) mod KING_PAWN_HASH_SIZE)
      in if KingPawnHashEntry.hc e = kingPawnHashCode ev side board
         then e = freshKPEntry ev side board
                    (pawnData (freshPawnEntry ev board) side)
                    (pawnData (freshPawnEntry ev board) (OppositeColor side))
         else True)"

definition slots_fresh :: "'b evaluator \<Rightarrow> bool \<Rightarrow> Scoring \<Rightarrow> 'b \<Rightarrow> bool" where
  "slots_fresh ev tune sc board =
     (pawn_slot_fresh ev tune sc board \<and>
      king_slot_fresh ev White sc board \<and> king_slot_fresh ev Black sc board)"



text \<open>Tables with every entry zeroed.\<close>

definition PawnData0 :: PawnData where
  "PawnData0 =
     \<lparr>passers = 0, opponent_pawn_attacks = 0, weak_pawns = 0, weakopen = 0,
      pawn_file_mask = 0, passer_file_mask = 0, pad = 0, endgame_score = 0,
      midgame_score = 0, w_square_pawns = 0, b_square_pawns = 0, outside = 0, details = []\<rparr>"

definition Scoring0 :: Scoring where
  "Scoring0 =
     \<lparr>pawnHashTable = (\<lambda>i. \<lparr>PawnHashEntry.hc = 0, wPawnData = PawnData0, bPawnData = PawnData0\<rparr>),
      kingPawnHashTable =
        (\<lambda>side i. \<lparr>KingPawnHashEntry.hc = 0, cover = 0, storm = 0, pawn_attacks = 0,
                    king_endgame_position = 0\<rparr>)\<rparr>"



section \<open>The tablebase adapter of syzygy.h\<close>

text \<open>
  The tablebases are an oracle behind syzygy.h. For a position it has no
  result, or it has the exact score of the position and, for every candidate root move,
  whether the move preserves that result and the distance-to-zero value after it.
\<close>

record 'm tb_result =
  tb_score :: score_t
  tb_candidates :: "('m \<times> bool \<times> nat) list"

definition preserving :: "'m tb_result \<Rightarrow> ('m \<times> bool \<times> nat) list" where
  "preserving r = filter (\<lambda>c. fst (snd c)) (tb_candidates r)"

fun min_dtz :: "nat list \<Rightarrow> nat" where
  "min_dtz [] = 0"
| "min_dtz [d] = d"
| "min_dtz (d # e # ds) = min d (min_dtz (e # ds))"

text \<open>
  Modelled from the spec: \<^verbatim>\<open>SyzygyTb::probe_root(b, score, rootMoves)\<close> is only declared
  in syzygy.h ("Returns the minimum DTZ value if score was obtained, -1 if not"); its body
  is missing. When a result is available it returns the minimum distance-to-zero value,
  \<open>score\<close> becomes the exact result and \<open>rootMoves\<close> becomes the candidate moves that
  preserve the tablebase result; with no result it returns \<open>-1\<close> and leaves both outputs
  as they were. The result is the returned value with the two outputs.
\<close>

definition probe_root ::
  "('b \<Rightarrow> 'm tb_result option) \<Rightarrow> 'b \<Rightarrow> score_t \<Rightarrow> 'm set \<Rightarrow> int \<times> score_t \<times> 'm set" where
  "probe_root tb b score rootMoves =
     (case tb b of
        None \<Rightarrow> (- 1, score, rootMoves)
      | Some r \<Rightarrow>
          (int (min_dtz (map (\<lambda>c. snd (snd c)) (preserving r))),
           tb_score r,
           set (map fst (preserving r))))"

text \<open>A two-position oracle to run the adapter on.\<close>

definition example_tb :: "nat \<Rightarrow> string tb_result option" where
  "example_tb b =
     (if b = 0 then None
      else Some \<lparr>tb_score = 30000,
                 tb_candidates = [(''Kb6'', True, 7), (''Ra8'', True, 3), (''Rh1'', False, 0)]\<rparr>)"

section \<open>Properties of Scores\<close>

lemma int32_id: "- (2 ^ 31) \<le> x \<Longrightarrow> x < 2 ^ 31 \<Longrightarrow> int32 x = x"
  by (simp add: int32_def)

lemma sdiv_128_cancel: "(x * 128) sdiv 128 = (x::int)"
  by (simp add: signed_divide_int_def sgn_mult abs_mult mult_sgn_abs)

lemma abs_sdiv_128: "\<bar>(x::int) sdiv 128\<bar> = \<bar>x\<bar> div 128"
  by (cases "x = 0") (simp_all add: signed_divide_int_def abs_mult abs_sgn_eq)

lemma weighted_bound:
  assumes "\<bar>x::int\<bar> < 2 ^ 24" and "0 \<le> w" and "w \<le> 128"
  shows "\<bar>x * w\<bar> < 2 ^ 31" and "\<bar>(x * w) sdiv 128\<bar> < 2 ^ 24"
proof -
  have "\<bar>x * w\<bar> = \<bar>x\<bar> * w" using assms(2) by (simp add: abs_mult)
  also from assms(3) have "\<dots> \<le> \<bar>x\<bar> * 128" by (simp add: mult_left_mono)
  finally have le: "\<bar>x * w\<bar> \<le> \<bar>x\<bar> * 128" .
  then show "\<bar>x * w\<bar> < 2 ^ 31" using assms(1) by simp
  have "\<bar>x * w\<bar> div 128 \<le> (\<bar>x\<bar> * 128) div 128" using le by (rule zdiv_mono1) simp
  then show "\<bar>(x * w) sdiv 128\<bar> < 2 ^ 24" using assms(1) by (simp add: abs_sdiv_128)
qed

lemma blend_small:
  assumes s: "small s" and w: "0 \<le> scale" "scale \<le> 128"
    and at: "MATERIAL_SCALE_at tbl l = Some scale"
  shows "blend tbl s l =
     Some (any s + (mid s * scale) sdiv 128 + (end' s * (128 - scale)) sdiv 128)"
proof -
  have m: "\<bar>mid s\<bar> < 2 ^ 24" and e: "\<bar>end' s\<bar> < 2 ^ 24" and a: "\<bar>any s\<bar> < 2 ^ 24"
    using s by (simp_all add: small_def)
  have w': "0 \<le> 128 - scale" "128 - scale \<le> 128" using w by simp_all
  have c: "int32 (128 - scale) = 128 - scale"
    using w by (intro int32_id) simp_all
  note M = weighted_bound [OF m w]
  note E = weighted_bound [OF e w']
  have p1: "int32 (mid s * scale) = mid s * scale"
    using M(1) by (intro int32_id) simp_all
  have p2: "int32 (end' s * (128 - scale)) = end' s * (128 - scale)"
    using E(1) by (intro int32_id) simp_all
  have s1: "int32 (any s + (mid s * scale) sdiv 128) = any s + (mid s * scale) sdiv 128"
    using a M(2) by (intro int32_id) simp_all
  have s2: "int32 (any s + (mid s * scale) sdiv 128 + (end' s * (128 - scale)) sdiv 128)
            = any s + (mid s * scale) sdiv 128 + (end' s * (128 - scale)) sdiv 128"
    using a M(2) E(2) by (intro int32_id) simp_all
  show ?thesis
    by (simp add: blend_def at c p1 p2 s1 s2)
qed

text \<open>
  C2 as stated fails for a large score: with \<open>mid = 2^24\<close> and \<open>scale = 128\<close> the
  product \<open>mid*scale\<close> is \<open>2^31\<close>, which wraps to \<open>-2^31\<close> in 32 bits, and the
  blended score is \<open>-2^24\<close>, not \<open>any + mid = 2^24\<close>.
\<close>

theorem blend_overflow_counterexample:
  "blend [0, 64, 128] \<lparr>mid = 16777216, end' = 0, any = 0\<rparr> 2 = Some (- 16777216) \<and>
   blend [0, 64, 128] \<lparr>mid = 16777216, end' = 0, any = 0\<rparr> 2
     \<noteq> Some (any \<lparr>mid = 16777216, end' = 0, any = 0\<rparr> + mid \<lparr>mid = 16777216, end' = 0, any = 0\<rparr>)"
  by (simp add: blend_def MATERIAL_SCALE_at_def int32_def signed_divide_int_def)

text \<open>
  C2, amended. For every score triple whose components are below \<open>2^24\<close> in magnitude
  and every material level inside the table, \<open>blend\<close> returns
  \<open>any + mid*scale/128 + end*(128-scale)/128\<close> (each quotient truncated), where
  \<open>scale\<close> is the table entry at that level and lies in \<open>[0,128]\<close> for a table as the
  spec describes it; at \<open>scale = 128\<close> the result is exactly \<open>any + mid\<close>, at
  \<open>scale = 0\<close> exactly \<open>any + end\<close>.
\<close>

theorem blend_formula_and_boundaries:
  assumes "scale_table_ok tbl" and "0 \<le> l" and "nat l < length tbl" and "small s"
  shows "0 \<le> tbl ! nat l \<and> tbl ! nat l \<le> 128 \<and>
         blend tbl s l =
           Some (any s + (mid s * (tbl ! nat l)) sdiv 128
                       + (end' s * (128 - tbl ! nat l)) sdiv 128) \<and>
         (tbl ! nat l = 128 \<longrightarrow> blend tbl s l = Some (any s + mid s)) \<and>
         (tbl ! nat l = 0 \<longrightarrow> blend tbl s l = Some (any s + end' s))"
proof -
  have range: "0 \<le> tbl ! nat l \<and> tbl ! nat l \<le> 128"
    using assms(1,3) by (simp add: scale_table_ok_def list_all_length)
  have at: "MATERIAL_SCALE_at tbl l = Some (tbl ! nat l)"
    using assms(2,3) by (simp add: MATERIAL_SCALE_at_def)
  have formula: "blend tbl s l =
      Some (any s + (mid s * (tbl ! nat l)) sdiv 128 + (end' s * (128 - tbl ! nat l)) sdiv 128)"
    using assms(4) range at by (intro blend_small) simp_all
  have full: "blend tbl s l = Some (any s + mid s)" if "tbl ! nat l = 128"
    using formula that by (simp add: sdiv_128_cancel)
  have bare: "blend tbl s l = Some (any s + end' s)" if "tbl ! nat l = 0"
    using formula that by (simp add: sdiv_128_cancel)
  from range formula full bare show ?thesis by blast
qed

theorem blend_formula_and_boundaries_witness:
  "blend [0, 64, 128] \<lparr>mid = -37, end' = 50, any = 7\<rparr> 2 = Some (- 30) \<and>
   blend [0, 64, 128] \<lparr>mid = -37, end' = 50, any = 7\<rparr> 0 = Some 57 \<and>
   blend [0, 64, 128] \<lparr>mid = -37, end' = 50, any = 7\<rparr> 1 = Some 14"
proof -
  have ok: "scale_table_ok [0, 64, 128]"
    by (simp add: scale_table_ok_def)
  have sm: "small \<lparr>mid = -37, end' = 50, any = 7\<rparr>"
    by (simp add: small_def)
  have "blend [0, 64, 128] \<lparr>mid = -37, end' = 50, any = 7\<rparr> 2 = Some (- 30)"
    using blend_formula_and_boundaries [OF ok _ _ sm, of 2] by simp
  moreover have "blend [0, 64, 128] \<lparr>mid = -37, end' = 50, any = 7\<rparr> 0 = Some 57"
    using blend_formula_and_boundaries [OF ok _ _ sm, of 0] by simp
  moreover have "blend [0, 64, 128] \<lparr>mid = -37, end' = 50, any = 7\<rparr> 1 = Some 14"
    using blend_formula_and_boundaries [OF ok _ _ sm, of 1]
    by (simp add: signed_divide_int_def)
  ultimately show ?thesis by blast
qed

text \<open>
  C9. Equality of score triples is component-wise, and inequality is its complement:
  \<open>a == b\<close> is true exactly when the three components agree, and \<open>a != b\<close> is true
  exactly when \<open>a == b\<close> is false.
\<close>

theorem scores_eq_componentwise_ne_complement:
  "(op_eq a b \<noteq> 0 \<longleftrightarrow> mid a = mid b \<and> end' a = end' b \<and> any a = any b) \<and>
   (op_ne a b \<noteq> 0 \<longleftrightarrow> op_eq a b = 0)"
  by (auto simp: op_eq_def op_ne_def)

theorem scores_eq_componentwise_ne_complement_witness:
  "op_eq \<lparr>mid = 1, end' = 2, any = 3\<rparr> \<lparr>mid = 1, end' = 2, any = 3\<rparr> = 1 \<and>
   op_ne \<lparr>mid = 1, end' = 2, any = 3\<rparr> \<lparr>mid = 1, end' = 2, any = 3\<rparr> = 0 \<and>
   op_eq \<lparr>mid = 1, end' = 2, any = 3\<rparr> \<lparr>mid = 1, end' = 5, any = 3\<rparr> = 0 \<and>
   op_ne \<lparr>mid = 1, end' = 2, any = 3\<rparr> \<lparr>mid = 1, end' = 5, any = 3\<rparr> = 1"
  using scores_eq_componentwise_ne_complement
          [of "\<lparr>mid = 1, end' = 2, any = 3\<rparr>" "\<lparr>mid = 1, end' = 2, any = 3\<rparr>"]
        scores_eq_componentwise_ne_complement
          [of "\<lparr>mid = 1, end' = 2, any = 3\<rparr>" "\<lparr>mid = 1, end' = 5, any = 3\<rparr>"]
  by (simp add: op_eq_def op_ne_def)

section \<open>Properties of mateScore\<close>

text \<open>
  C10. \<open>mateScore\<close> is true exactly when the score is not \<open>INVALID_SCORE\<close> and is at
  least \<open>TABLEBASE_WIN\<close> or at most \<open>-TABLEBASE_WIN\<close>; the sentinel \<open>INVALID_SCORE\<close>
  itself is never a mate score, whatever its magnitude.
\<close>

theorem mateScore_exact:
  "(mateScore c score \<longleftrightarrow>
      score \<noteq> INVALID_SCORE c \<and> (TABLEBASE_WIN c \<le> score \<or> score \<le> - TABLEBASE_WIN c)) \<and>
   \<not> mateScore c (INVALID_SCORE c)"
  by (simp add: mateScore_def)

theorem mateScore_exact_witness:
  "mateScore \<lparr>INVALID_SCORE = -32001, TABLEBASE_WIN = 31000\<rparr> 31500 \<and>
   mateScore \<lparr>INVALID_SCORE = -32001, TABLEBASE_WIN = 31000\<rparr> (-31000) \<and>
   \<not> mateScore \<lparr>INVALID_SCORE = -32001, TABLEBASE_WIN = 31000\<rparr> 250 \<and>
   \<not> mateScore \<lparr>INVALID_SCORE = -32001, TABLEBASE_WIN = 31000\<rparr> (-32001)"
  using mateScore_exact [of "\<lparr>INVALID_SCORE = -32001, TABLEBASE_WIN = 31000\<rparr>" 31500]
        mateScore_exact [of "\<lparr>INVALID_SCORE = -32001, TABLEBASE_WIN = 31000\<rparr>" "-31000"]
        mateScore_exact [of "\<lparr>INVALID_SCORE = -32001, TABLEBASE_WIN = 31000\<rparr>" 250]
  by simp

section \<open>Properties of the cache sizes\<close>

lemma is_pow2_iff: "is_pow2 n \<longleftrightarrow> (\<exists>k. n = 2 ^ k)"
proof (induction n rule: is_pow2.induct)
  case (1 n)
  show ?case
  proof (cases "n = 0 \<or> n = 1 \<or> odd n")
    case True
    then consider "n = 0" | "n = 1" | "n \<noteq> 0" "n \<noteq> 1" "odd n" by blast
    then show ?thesis
    proof cases
      case 1 then show ?thesis by (simp add: is_pow2.simps)
    next
      case 2
      have "(1::nat) = 2 ^ 0" by simp
      then have "\<exists>k. (1::nat) = 2 ^ k" ..
      then show ?thesis using 2 by (simp add: is_pow2.simps)
    next
      case 3
      have "n \<noteq> 2 ^ k" for k
      proof (cases k)
        case 0 then show ?thesis using 3 by simp
      next
        case (Suc j) then show ?thesis using 3 by auto
      qed
      then show ?thesis using 3 by (subst is_pow2.simps) simp
    qed
  next
    case False
    then have n: "n \<noteq> 0" "n \<noteq> 1" "even n" by auto
    have IH: "is_pow2 (n div 2) \<longleftrightarrow> (\<exists>k. n div 2 = 2 ^ k)"
      using "1.IH" n by simp
    have "(\<exists>k. n div 2 = 2 ^ k) \<longleftrightarrow> (\<exists>k. n = 2 ^ k)"
    proof
      assume "\<exists>k. n div 2 = 2 ^ k"
      then obtain k where "n div 2 = 2 ^ k" ..
      then have "n = 2 ^ Suc k" using n(3) by auto
      then show "\<exists>k. n = 2 ^ k" ..
    next
      assume "\<exists>k. n = 2 ^ k"
      then obtain k where k: "n = 2 ^ k" ..
      with n obtain j where "k = Suc j" by (cases k) auto
      with k have "n div 2 = 2 ^ j" by simp
      then show "\<exists>k. n div 2 = 2 ^ k" ..
    qed
    with IH n show ?thesis by (subst is_pow2.simps) simp
  qed
qed

lemma is_prime_iff: "is_prime n \<longleftrightarrow> (2 \<le> n \<and> (\<forall>d. d dvd n \<longrightarrow> d = 1 \<or> d = n))"
proof
  assume p: "is_prime n"
  then have n: "2 \<le> n" and nd: "\<And>d. 2 \<le> d \<Longrightarrow> d < n \<Longrightarrow> \<not> d dvd n"
    by (auto simp: is_prime_def list_all_iff dvd_eq_mod_eq_0)
  have "d = 1 \<or> d = n" if "d dvd n" for d
  proof -
    from n have "0 < n" by simp
    with that have "d \<le> n" by (rule dvd_imp_le)
    moreover from that n have "d \<noteq> 0" by (cases "d = 0") auto
    ultimately show ?thesis
      using nd [of d] that by (cases "d = 1"; cases "d = n") auto
  qed
  with n show "2 \<le> n \<and> (\<forall>d. d dvd n \<longrightarrow> d = 1 \<or> d = n)" by blast
next
  assume "2 \<le> n \<and> (\<forall>d. d dvd n \<longrightarrow> d = 1 \<or> d = n)"
  then show "is_prime n"
    by (auto simp: is_prime_def list_all_iff dvd_eq_mod_eq_0)
qed

lemma not_prime_divisor: "2 \<le> d \<Longrightarrow> d < n \<Longrightarrow> n mod d = 0 \<Longrightarrow> \<not> is_prime n"
  by (auto simp: is_prime_def list_all_iff intro!: bexI [of _ d])

text \<open>
  C7 as stated fails: the king/pawn cache has 8132 = 4 * 19 * 107 slots, which is neither
  a power of two nor a prime.
\<close>

theorem king_pawn_hash_size_counterexample:
  "\<not> (is_pow2 KING_PAWN_HASH_SIZE \<or> is_prime KING_PAWN_HASH_SIZE)"
proof -
  have "\<not> is_pow2 8132" by (simp add: is_pow2.simps)
  moreover have "\<not> is_prime 8132" by (rule not_prime_divisor [of 2]) simp_all
  ultimately show ?thesis by (simp add: KING_PAWN_HASH_SIZE_def)
qed

text \<open>
  C7, amended. The cache sizes are fixed positive constants. The pawn cache of the normal
  build has 16384 = 2^14 slots, a power of two. The pawn cache of the tuning build has
  8096 = 2^5 * 11 * 23 slots and the king/pawn cache has 8132 = 2^2 * 19 * 107 slots per
  side; these two are neither powers of two nor primes.
\<close>

theorem hash_sizes_factored:
  "PAWN_HASH_SIZE False = 2 ^ 14 \<and> is_pow2 (PAWN_HASH_SIZE False) \<and>
   PAWN_HASH_SIZE True = 2 ^ 5 * 11 * 23 \<and>
   \<not> is_pow2 (PAWN_HASH_SIZE True) \<and> \<not> is_prime (PAWN_HASH_SIZE True) \<and>
   KING_PAWN_HASH_SIZE = 2 ^ 2 * 19 * 107 \<and>
   \<not> is_pow2 KING_PAWN_HASH_SIZE \<and> \<not> is_prime KING_PAWN_HASH_SIZE \<and>
   0 < PAWN_HASH_SIZE False \<and> 0 < PAWN_HASH_SIZE True \<and> 0 < KING_PAWN_HASH_SIZE"
proof -
  have a: "is_pow2 16384" by (simp add: is_pow2.simps)
  have b: "\<not> is_pow2 8096" by (simp add: is_pow2.simps)
  have c: "\<not> is_prime 8096" by (rule not_prime_divisor [of 2]) simp_all
  have d: "\<not> is_pow2 8132" by (simp add: is_pow2.simps)
  have e: "\<not> is_prime 8132" by (rule not_prime_divisor [of 2]) simp_all
  from a b c d e show ?thesis
    by (simp add: PAWN_HASH_SIZE_def KING_PAWN_HASH_SIZE_def)
qed

section \<open>Properties of the optimizer wrapper\<close>

lemma penalty_step_claimed:
  assumes "i < length th" "i < length (lower r)" "i < length (upper r)"
  shows "penalty_step a r th i p = Inr (add_penalty a p (component_penalty a r th i))"
  using assms by (simp add: penalty_step_def coeff_def component_penalty_def add_penalty_def)

lemma penalty_loop_claimed:
  assumes len: "nat (dim r) \<le> length th" "nat (dim r) \<le> length (lower r)"
    "nat (dim r) \<le> length (upper r)"
  shows "0 \<le> i \<Longrightarrow> penalty_loop a r th i p =
     Inr (foldl (\<lambda>p i. add_penalty a p (component_penalty a r th i)) p [nat i..<nat (dim r)])"
proof (induction "nat (dim r - i)" arbitrary: i p)
  case 0
  then have "\<not> i < dim r" by simp
  moreover from this have "[nat i..<nat (dim r)] = []" by simp
  ultimately show ?case by (simp add: penalty_loop.simps)
next
  case (Suc n)
  then have lt: "i < dim r" and i0: "0 \<le> i" by simp_all
  then have idx: "nat i < nat (dim r)" by simp
  have step: "penalty_step a r th (nat i) p =
     Inr (add_penalty a p (component_penalty a r th (nat i)))"
    using idx len by (intro penalty_step_claimed) auto
  have n: "n = nat (dim r - (i + 1))" using Suc.hyps(2) by simp
  have rest: "penalty_loop a r th (i + 1) q =
     Inr (foldl (\<lambda>p i. add_penalty a p (component_penalty a r th i)) q
            [nat (i + 1)..<nat (dim r)])"
    for q using Suc.hyps(1) [OF n] i0 by simp
  have split: "[nat i..<nat (dim r)] = nat i # [nat (i + 1)..<nat (dim r)]"
    using idx i0 by (simp add: upt_conv_Cons nat_add_distrib)
  show ?case
    by (subst penalty_loop.simps) (simp add: lt step rest split)
qed

lemma penalty_loop_box_penalty:
  assumes "nat (dim r) \<le> length th" "nat (dim r) \<le> length (lower r)"
    "nat (dim r) \<le> length (upper r)"
  shows "penalty_loop a r th 0 (flit a 0) = Inr (box_penalty a r th)"
  using penalty_loop_claimed [OF assms, of 0 a "flit a 0"] by (simp add: box_penalty_def)

lemma foldl_no_penalty:
  assumes "\<forall>i\<in>set xs. component_penalty a r th i = None"
  shows "foldl (\<lambda>p i. add_penalty a p (component_penalty a r th i)) p xs = p"
  using assms by (induction xs arbitrary: p) (simp_all add: add_penalty_def)

lemma box_penalty_inside:
  assumes "\<forall>i<nat (dim r). \<not> fless a (th ! i) (lower r ! i) \<and> \<not> fless a (upper r ! i) (th ! i)"
  shows "box_penalty a r th = flit a 0"
proof -
  have "\<forall>i\<in>set [0..<nat (dim r)]. component_penalty a r th i = None"
    using assms by (simp add: component_penalty_def)
  then show ?thesis
    unfolding box_penalty_def by (rule foldl_no_penalty)
qed

lemma optimize_step_claimed:
  assumes len: "nat (dim r) \<le> length (lower r)" "nat (dim r) \<le> length (upper r)"
    and opt: "\<forall>ost v. nat (dim r) \<le> length (fst (getNextTheta2Evaluate api ost v))"
  shows "optimize_step a api hk r st = Inr (claimed_round a api hk r st)"
proof -
  obtain th opt1 where g: "getNextTheta2Evaluate api (optimizer st) (theta st) = (th, opt1)"
    by (cases "getNextTheta2Evaluate api (optimizer st) (theta st)")
  obtain obj w1 where f: "func hk th (world st) = (obj, w1)"
    by (cases "func hk th (world st)")
  have "nat (dim r) \<le> length th" using opt [rule_format, of "optimizer st" "theta st"] g by simp
  then have p: "penalty_loop a r th 0 (flit a 0) = Inr (box_penalty a r th)"
    using len by (intro penalty_loop_box_penalty)
  show ?thesis
    by (simp add: optimize_step_def OptBase_eval_def claimed_round_def g f p Let_def)
qed

lemma optimize_loop_claimed:
  assumes len: "nat (dim r) \<le> length (lower r)" "nat (dim r) \<le> length (upper r)"
    and opt: "\<forall>ost v. nat (dim r) \<le> length (fst (getNextTheta2Evaluate api ost v))"
  shows "optimize_loop a api hk r i st =
           Inr ((claimed_round a api hk r ^^ nat (eval_limit r - i)) st)"
proof (induction "nat (eval_limit r - i)" arbitrary: i st)
  case 0
  then have "\<not> i < eval_limit r" by simp
  with 0 show ?case by (simp add: optimize_loop.simps)
next
  case (Suc n)
  then have lt: "i < eval_limit r" by simp
  have n: "n = nat (eval_limit r - (i + 1))" using Suc.hyps(2) by simp
  have step: "optimize_step a api hk r st = Inr (claimed_round a api hk r st)"
    by (rule optimize_step_claimed [OF len opt])
  have "optimize_loop a api hk r i st =
          Inr ((claimed_round a api hk r ^^ n) (claimed_round a api hk r st))"
    using Suc.hyps(1) [OF n, of "claimed_round a api hk r st"] n
    by (subst optimize_loop.simps) (simp add: lt step)
  then show ?case
    using Suc.hyps(2) [symmetric] by (simp add: funpow_swap1)
qed

text \<open>
  C8. With a box and optimizer vectors of the optimizer's dimension, \<open>optimize\<close> runs
  to the end and does exactly \<open>eval_limit\<close> rounds (none for a negative limit). In every
  round the objective is evaluated once on the vector the optimizer proposed, the callback
  is then invoked with that objective and that vector, and the cost reported to the
  optimizer is that objective plus the penalty: \<open>constraint_penalty\<close> times the squared
  distance of each component outside its \<open>[lower, upper]\<close> box, which is zero when all
  components are within bounds.
\<close>

theorem optimize_rounds:
  assumes "nat (dim r) \<le> length (lower r)" and "nat (dim r) \<le> length (upper r)"
    and "\<forall>ost v. nat (dim r) \<le> length (fst (getNextTheta2Evaluate api ost v))"
  shows "optimize a api hk r w =
           Inr ((claimed_round a api hk r ^^ nat (eval_limit r))
                  \<lparr>theta = initial_theta r,
                   optimizer = create api (initial_theta r)
                     (map (\<lambda>x. fmul a x (initialSd (options r)))
                        (replicate (nat (dim r)) (flit a 1)))
                     (initial_exp (options r)),
                   world = w\<rparr>) \<and>
         (\<forall>th. (\<forall>i<nat (dim r). \<not> fless a (th ! i) (lower r ! i) \<and>
                                   \<not> fless a (upper r ! i) (th ! i))
               \<longrightarrow> box_penalty a r th = flit a 0)"
proof -
  have "optimize a api hk r w =
           Inr ((claimed_round a api hk r ^^ nat (eval_limit r))
                  \<lparr>theta = initial_theta r,
                   optimizer = create api (initial_theta r)
                     (map (\<lambda>x. fmul a x (initialSd (options r)))
                        (replicate (nat (dim r)) (flit a 1)))
                     (initial_exp (options r)),
                   world = w\<rparr>)"
    using optimize_loop_claimed [OF assms, of a hk 0] by (simp add: optimize_def)
  moreover have "\<forall>th. (\<forall>i<nat (dim r). \<not> fless a (th ! i) (lower r ! i) \<and>
                                   \<not> fless a (upper r ! i) (th ! i))
               \<longrightarrow> box_penalty a r th = flit a 0"
    using box_penalty_inside by blast
  ultimately show ?thesis by blast
qed

theorem optimize_rounds_witness:
  "optimize exact_arith recording_optimizer recording_hooks
       (Rockstar_new exact_arith 2 [1 / 2, 1 / 2] 2) []
     = Inr \<lparr>theta = [5 / 2, 1 / 2],
            optimizer = (7 / 2, [27, 228]),
            world = [Evaluated [3 / 2, 1 / 2] 2, Updated 2 [3 / 2, 1 / 2],
                     Evaluated [5 / 2, 1 / 2] 3, Updated 3 [5 / 2, 1 / 2]]\<rparr> \<and>
   box_penalty exact_arith (Rockstar_new exact_arith 2 [1 / 2, 1 / 2] 2) [1 / 4, 1] = 0"
proof -
  let ?r = "Rockstar_new exact_arith 2 [1 / 2, 1 / 2] 2"
  have h1: "nat (dim ?r) \<le> length (lower ?r)" by (simp add: Rockstar_new_def)
  have h2: "nat (dim ?r) \<le> length (upper ?r)" by (simp add: Rockstar_new_def)
  have h3: "\<forall>ost v. nat (dim ?r) \<le> length (fst (getNextTheta2Evaluate recording_optimizer ost v))"
    by (simp add: Rockstar_new_def recording_optimizer_def split_beta)
  have p1: "box_penalty exact_arith ?r [3 / 2, 1 / 2] = 25"
    by (simp add: box_penalty_def component_penalty_def add_penalty_def Rockstar_new_def
          exact_arith_def numeral_2_eq_2 power2_eq_square)
  have p2: "box_penalty exact_arith ?r [5 / 2, 1 / 2] = 225"
    by (simp add: box_penalty_def component_penalty_def add_penalty_def Rockstar_new_def
          exact_arith_def numeral_2_eq_2 power2_eq_square)
  have e: "nat (eval_limit ?r) = Suc (Suc 0)" by (simp add: Rockstar_new_def)
  have inside: "\<forall>i<nat (dim ?r). \<not> fless exact_arith ([1 / 4, 1] ! i) (lower ?r ! i) \<and>
                                   \<not> fless exact_arith (upper ?r ! i) ([1 / 4, 1] ! i)"
    by (simp add: Rockstar_new_def exact_arith_def numeral_2_eq_2 less_Suc_eq)
  note T = optimize_rounds [OF h1 h2 h3, of exact_arith recording_hooks "[]"]
  have run: "optimize exact_arith recording_optimizer recording_hooks ?r []
     = Inr \<lparr>theta = [5 / 2, 1 / 2],
            optimizer = (7 / 2, [27, 228]),
            world = [Evaluated [3 / 2, 1 / 2] 2, Updated 2 [3 / 2, 1 / 2],
                     Evaluated [5 / 2, 1 / 2] 3, Updated 3 [5 / 2, 1 / 2]]\<rparr>"
    unfolding T [THEN conjunct1] e
    by (simp add: claimed_round_def recording_optimizer_def recording_hooks_def p1 p2 Let_def)
      (simp add: exact_arith_def)
  have zero: "box_penalty exact_arith ?r [1 / 4, 1] = 0"
    using T [THEN conjunct2] inside by (simp add: exact_arith_def)
  from run zero show ?thesis by blast
qed


section \<open>Properties of the evaluator and its caches\<close>




























lemma zeroed_tables_fresh:
  assumes "\<forall>b. pawnHashCode ev b \<noteq> 0 \<and> (\<forall>side. kingPawnHashCode ev side b \<noteq> 0)"
  shows "\<forall>b. slots_fresh ev tune Scoring0 b"
proof
  fix b
  from assms have "0 \<noteq> pawnHashCode ev b" and "\<And>side. 0 \<noteq> kingPawnHashCode ev side b"
    by (simp_all add: eq_commute [of 0])
  then show "slots_fresh ev tune Scoring0 b"
    by (simp add: slots_fresh_def pawn_slot_fresh_def king_slot_fresh_def Scoring0_def Let_def)
qed














section \<open>Properties of the tablebase adapter\<close>

lemma min_dtz_least: "x \<in> set ds \<Longrightarrow> min_dtz ds \<le> x"
  by (induction ds rule: min_dtz.induct) auto

lemma min_dtz_in: "ds \<noteq> [] \<Longrightarrow> min_dtz ds \<in> set ds"
  by (induction ds rule: min_dtz.induct) (auto simp: min_def)

text \<open>
  C6. \<open>probe_root\<close> returns -1 exactly when the tablebases have no result for the
  position, and then leaves its outputs alone. When they have a result it returns the
  minimum distance-to-zero value (below that of every preserving move, and that of one of
  them when there is one), sets the score to the exact result, and makes \<open>rootMoves\<close>
  the candidate moves that preserve the tablebase result.
\<close>

theorem probe_root_contract:
  "(fst (probe_root tb b score rootMoves) = - 1 \<longleftrightarrow> tb b = None) \<and>
   (tb b = None \<longrightarrow> probe_root tb b score rootMoves = (- 1, score, rootMoves)) \<and>
   (\<forall>r. tb b = Some r \<longrightarrow>
      fst (probe_root tb b score rootMoves) = int (min_dtz (map (\<lambda>c. snd (snd c)) (preserving r))) \<and>
      (\<forall>m d. (m, True, d) \<in> set (tb_candidates r) \<longrightarrow>
          fst (probe_root tb b score rootMoves) \<le> int d) \<and>
      (preserving r \<noteq> [] \<longrightarrow>
          (\<exists>m d. (m, True, d) \<in> set (tb_candidates r) \<and>
                 fst (probe_root tb b score rootMoves) = int d)) \<and>
      fst (snd (probe_root tb b score rootMoves)) = tb_score r \<and>
      snd (snd (probe_root tb b score rootMoves)) = {m. \<exists>d. (m, True, d) \<in> set (tb_candidates r)} \<and>
      snd (snd (probe_root tb b score rootMoves)) \<subseteq> fst ` set (tb_candidates r))"
proof -
  have none: "fst (probe_root tb b score rootMoves) = - 1 \<longleftrightarrow> tb b = None"
    by (cases "tb b") (simp_all add: probe_root_def)
  have unchanged: "tb b = None \<longrightarrow> probe_root tb b score rootMoves = (- 1, score, rootMoves)"
    by (simp add: probe_root_def)
  have found: "fst (probe_root tb b score rootMoves) = int (min_dtz (map (\<lambda>c. snd (snd c)) (preserving r))) \<and>
      (\<forall>m d. (m, True, d) \<in> set (tb_candidates r) \<longrightarrow>
          fst (probe_root tb b score rootMoves) \<le> int d) \<and>
      (preserving r \<noteq> [] \<longrightarrow>
          (\<exists>m d. (m, True, d) \<in> set (tb_candidates r) \<and>
                 fst (probe_root tb b score rootMoves) = int d)) \<and>
      fst (snd (probe_root tb b score rootMoves)) = tb_score r \<and>
      snd (snd (probe_root tb b score rootMoves)) = {m. \<exists>d. (m, True, d) \<in> set (tb_candidates r)} \<and>
      snd (snd (probe_root tb b score rootMoves)) \<subseteq> fst ` set (tb_candidates r)"
    if r: "tb b = Some r" for r
  proof -
    let ?ds = "map (\<lambda>c. snd (snd c)) (preserving r)"
    have ret: "fst (probe_root tb b score rootMoves) = int (min_dtz ?ds)"
      using r by (simp add: probe_root_def)
    have least: "fst (probe_root tb b score rootMoves) \<le> int d"
      if "(m, True, d) \<in> set (tb_candidates r)" for m d
    proof -
      from that have "(m, True, d) \<in> set (preserving r)" by (simp add: preserving_def)
      then have "d \<in> set ?ds" by force
      then show ?thesis using ret min_dtz_least by simp
    qed
    have attained: "\<exists>m d. (m, True, d) \<in> set (tb_candidates r) \<and>
                 fst (probe_root tb b score rootMoves) = int d" if "preserving r \<noteq> []"
    proof -
      from that have "?ds \<noteq> []" by simp
      then have "min_dtz ?ds \<in> set ?ds" by (rule min_dtz_in)
      then obtain c where c: "c \<in> set (preserving r)" "min_dtz ?ds = snd (snd c)" by auto
      obtain m ok d where mc: "c = (m, ok, d)" by (cases c) auto
      with c have "(m, True, d) \<in> set (tb_candidates r)" by (auto simp: preserving_def)
      with c mc ret show ?thesis by auto
    qed
    have sc: "fst (snd (probe_root tb b score rootMoves)) = tb_score r"
      using r by (simp add: probe_root_def)
    have mv: "snd (snd (probe_root tb b score rootMoves)) = {m. \<exists>d. (m, True, d) \<in> set (tb_candidates r)}"
      using r by (force simp: probe_root_def preserving_def)
    have sub: "snd (snd (probe_root tb b score rootMoves)) \<subseteq> fst ` set (tb_candidates r)"
      unfolding mv by force
    from ret least attained sc mv sub show ?thesis by blast
  qed
  from none unchanged found show ?thesis by blast
qed

theorem probe_root_contract_witness:
  "probe_root example_tb 0 5 {''Kb6'', ''Rh1''} = (- 1, 5, {''Kb6'', ''Rh1''}) \<and>
   probe_root example_tb 2 5 {} = (3, 30000, {''Kb6'', ''Ra8''})"
proof -
  have "probe_root example_tb 2 5 {} = (3, 30000, {''Kb6'', ''Ra8''})"
    by (simp add: probe_root_def example_tb_def preserving_def)
  moreover have "example_tb 0 = None" by (simp add: example_tb_def)
  ultimately show ?thesis
    using probe_root_contract [of example_tb 0 5 "{''Kb6'', ''Rh1''}"] by simp
qed

end
